theory Spec2Isabelle
  imports Complex_Main "HOL-Library.Word"
begin

section \<open>JavaScript strings\<close>

text \<open>
  A JavaScript string is a sequence of UTF-16 code units. \<open>length\<close> counts code units,
  \<open>trim\<close> strips the code units of the classes WhiteSpace and LineTerminator from both
  ends, and a string is falsy exactly when it is empty. A regular expression with the
  \<open>u\<close> flag reads the string as code points: a high surrogate followed by a low
  surrogate is one code point, every other code unit stands for itself.
\<close>

type_synonym code_unit = "16 word"
type_synonym jsstring = "code_unit list"

text \<open>A string literal of the source (all literals of the component are ASCII).\<close>

definition js :: "string \<Rightarrow> jsstring" where
  "js s = map of_char s"

text \<open>
  WhiteSpace and LineTerminator of ECMAScript (what \<open>trim\<close> removes and what the class
  escape \<open>\s\<close> matches): TAB, LF, VT, FF, CR, SP, NBSP, U+1680, U+2000 to U+200A,
  U+2028, U+2029, U+202F, U+205F, U+3000 and U+FEFF.
\<close>

definition WhiteSpace :: "nat \<Rightarrow> bool" where
  "WhiteSpace c \<longleftrightarrow>
     (9 \<le> c \<and> c \<le> 13) \<or> c = 32 \<or> c = 160 \<or> c = 5760 \<or> (8192 \<le> c \<and> c \<le> 8202) \<or>
     c = 8232 \<or> c = 8233 \<or> c = 8239 \<or> c = 8287 \<or> c = 12288 \<or> c = 65279"

definition is_space :: "code_unit \<Rightarrow> bool" where
  "is_space u = WhiteSpace (unat u)"

definition trim :: "jsstring \<Rightarrow> jsstring" where
  "trim s = rev (dropWhile is_space (rev (dropWhile is_space s)))"

fun code_points :: "jsstring \<Rightarrow> nat list" where
  "code_points (h # l # s) =
     (if 0xD800 \<le> h \<and> h \<le> 0xDBFF \<and> 0xDC00 \<le> l \<and> l \<le> 0xDFFF
      then (0x10000 + (unat h - 0xD800) * 0x400 + (unat l - 0xDC00)) # code_points s
      else unat h # code_points (l # s))"
| "code_points [h] = [unat h]"
| "code_points [] = []"

text \<open>Decimal rendering of an integer, as a template literal interpolates a number.\<close>

fun digits :: "nat \<Rightarrow> jsstring" where
  "digits n =
     (if n < 10 then [of_nat (48 + n)] else digits (n div 10) @ [of_nat (48 + n mod 10)])"

definition toString :: "int \<Rightarrow> jsstring" where
  "toString i = (if i < 0 then js ''-'' @ digits (nat (- i)) else digits (nat i))"

section \<open>Regular expressions\<close>

text \<open>
  The fragment of regular expressions the component uses: a sequence of character
  classes, each taken once or at least \<open>n\<close> times (\<open>+\<close> is at least once), anchored at
  both ends. \<open>rx_test\<close> is \<open>RegExp.prototype.test\<close> on that fragment, the way a
  backtracking engine runs it: a quantified class first takes a character, and gives
  it back when the rest of the pattern fails.
\<close>

datatype quant = Once | AtLeast nat

type_synonym atom = "(nat \<Rightarrow> bool) \<times> quant"
type_synonym regex = "atom list"

fun rx_test :: "regex \<Rightarrow> nat list \<Rightarrow> bool" where
  "rx_test [] s = (s = [])"
| "rx_test ((p, Once) # r) [] = False"
| "rx_test ((p, Once) # r) (c # s) = (p c \<and> rx_test r s)"
| "rx_test ((p, AtLeast (Suc n)) # r) [] = False"
| "rx_test ((p, AtLeast (Suc n)) # r) (c # s) = (p c \<and> rx_test ((p, AtLeast n) # r) s)"
| "rx_test ((p, AtLeast 0) # r) [] = rx_test r []"
| "rx_test ((p, AtLeast 0) # r) (c # s) =
     ((p c \<and> rx_test ((p, AtLeast 0) # r) s) \<or> rx_test r (c # s))"

text \<open>The language of a pattern: what it means for a string to match it.\<close>

fun atom_lang :: "atom \<Rightarrow> nat list set" where
  "atom_lang (p, Once) = {w. \<exists>c. w = [c] \<and> p c}"
| "atom_lang (p, AtLeast n) = {w. n \<le> length w \<and> list_all p w}"

fun rx_lang :: "regex \<Rightarrow> nat list set" where
  "rx_lang [] = {[]}"
| "rx_lang (a # r) = {w. \<exists>u v. w = u @ v \<and> u \<in> atom_lang a \<and> v \<in> rx_lang r}"

section \<open>The contact form: data\<close>

text \<open>\<open>src/components/ContactForm.tsx\<close>.\<close>

datatype FormStatus = Idle | Submitting | Success | Error

text \<open>\<open>FieldErrors\<close>: every property is optional.\<close>

record FieldErrors =
  err_name :: "jsstring option"
  err_email :: "jsstring option"
  err_organization :: "jsstring option"
  err_message :: "jsstring option"

text \<open>
  The values \<open>JSON.parse\<close> can give: \<open>null\<close>, a boolean, a number, a string, an array
  or an object. A number is a double, that is its value or, for a literal that
  overflows, an infinity (the flag says whether it is the negative one). An object
  lists its members in the order of the text; a name that comes twice keeps its last
  value. The interface \<open>FormspreeErrorResponse\<close>,
  \<open>{ errors?: Array<{ message: string }> }\<close>, is a type of the compiler only: the
  cast of the source checks nothing when the program runs, so the parsed body can be
  any of these values, and the signal of the banner text can come to hold any of them.
\<close>

datatype jsvalue =
    JNull
  | JBool bool
  | JNumber real
  | JInfinity bool
  | JString jsstring
  | JArray "jsvalue list"
  | JObject "(jsstring \<times> jsvalue) list"

definition MIN_NAME_LENGTH :: nat where "MIN_NAME_LENGTH = 2"
definition MIN_ORGANIZATION_LENGTH :: nat where "MIN_ORGANIZATION_LENGTH = 2"
definition MIN_MESSAGE_LENGTH :: nat where "MIN_MESSAGE_LENGTH = 10"
definition RATE_LIMIT_COOLDOWN_MS :: int where "RATE_LIMIT_COOLDOWN_MS = 3000"

text \<open>The class \<open>[^\s@]\<close> and the pattern \<open>/^[^\s@]+@[^\s@]+\.[^\s@]{2,}$/u\<close>.\<close>

definition not_space_at :: "nat \<Rightarrow> bool" where
  "not_space_at c \<longleftrightarrow> \<not> (WhiteSpace c \<or> c = 64)"

definition emailRegex :: regex where
  "emailRegex =
     [(not_space_at, AtLeast 1), ((\<lambda>c. c = 64), Once),
      (not_space_at, AtLeast 1), ((\<lambda>c. c = 46), Once),
      (not_space_at, AtLeast 2)]"

definition validateEmail :: "jsstring \<Rightarrow> bool" where
  "validateEmail email = rx_test emailRegex (code_points email)"

text \<open>
  The signals of the component: the status, the banner text, the touched record
  (\<open>Record<string, boolean>\<close>), the time of the last submission and the five field
  values.
\<close>

record form_state =
  status :: FormStatus
  errorMessage :: jsvalue
  touched :: "string \<rightharpoonup> bool"
  lastSubmitTime :: int
  name :: jsstring
  email :: jsstring
  organization :: jsstring
  role :: jsstring
  message :: jsstring

definition initial :: form_state where
  "initial =
     \<lparr>status = Idle, errorMessage = JString [], touched = Map.empty, lastSubmitTime = 0,
      name = [], email = [], organization = [], role = [], message = []\<rparr>"

section \<open>Validation\<close>

text \<open>The memo \<open>errors\<close>; \<open>!s.trim()\<close> holds exactly when the trimmed string is empty.\<close>

definition errors :: "form_state \<Rightarrow> FieldErrors" where
  "errors st =
     \<lparr>err_name =
        (if trim (name st) = [] then Some (js ''Name is required'')
         else if length (trim (name st)) < MIN_NAME_LENGTH
         then Some (js ''Name must be at least '' @ toString (int MIN_NAME_LENGTH)
                    @ js '' characters'')
         else None),
      err_email =
        (if trim (email st) = [] then Some (js ''Email is required'')
         else if \<not> validateEmail (trim (email st))
         then Some (js ''Please enter a valid email address'')
         else None),
      err_organization =
        (if trim (organization st) \<noteq> []
            \<and> length (trim (organization st)) < MIN_ORGANIZATION_LENGTH
         then Some (js ''Organization must be at least ''
                    @ toString (int MIN_ORGANIZATION_LENGTH) @ js '' characters'')
         else None),
      err_message =
        (if trim (message st) = [] then Some (js ''Message is required'')
         else if length (trim (message st)) < MIN_MESSAGE_LENGTH
         then Some (js ''Message must be at least '' @ toString (int MIN_MESSAGE_LENGTH)
                    @ js '' characters'')
         else None)\<rparr>"

text \<open>\<open>Object.keys(errors()).length === 0\<close>: no property of the record is set.\<close>

definition isValid :: "form_state \<Rightarrow> bool" where
  "isValid st \<longleftrightarrow>
     err_name (errors st) = None \<and> err_email (errors st) = None
     \<and> err_organization (errors st) = None \<and> err_message (errors st) = None"

text \<open>
  The five inputs of the form and their property names. \<open>errors()[field]\<close> is
  \<open>undefined\<close> for the role, which \<open>FieldErrors\<close> does not have.
\<close>

datatype field = Name | Email | Organization | Role | Message

fun key :: "field \<Rightarrow> string" where
  "key Name = ''name''"
| "key Email = ''email''"
| "key Organization = ''organization''"
| "key Role = ''role''"
| "key Message = ''message''"

fun errors_at :: "FieldErrors \<Rightarrow> field \<Rightarrow> jsstring option" where
  "errors_at errs Name = err_name errs"
| "errors_at errs Email = err_email errs"
| "errors_at errs Organization = err_organization errs"
| "errors_at errs Role = None"
| "errors_at errs Message = err_message errs"

definition markTouched :: "string \<Rightarrow> form_state \<Rightarrow> form_state" where
  "markTouched fld st = st\<lparr>touched := (touched st)(fld \<mapsto> True)\<rparr>"

text \<open>\<open>touched()[field] ? errors()[field] : undefined\<close>.\<close>

definition showError :: "form_state \<Rightarrow> field \<Rightarrow> jsstring option" where
  "showError st fld =
     (if touched st (key fld) = Some True then errors_at (errors st) fld else None)"

section \<open>Validation as the specification words it\<close>

datatype failure = Required | TooShort | InvalidFormat

text \<open>
  A string matches the pattern when it is a local part, an \<open>@\<close>, a domain, a dot and a
  top-level part of at least two characters, none of the three parts holding white
  space or an \<open>@\<close>.
\<close>

definition matches_email_pattern :: "jsstring \<Rightarrow> bool" where
  "matches_email_pattern s \<longleftrightarrow>
     (\<exists>l d t. code_points s = l @ [64] @ d @ [46] @ t
        \<and> l \<noteq> [] \<and> d \<noteq> [] \<and> 2 \<le> length t
        \<and> list_all not_space_at l \<and> list_all not_space_at d \<and> list_all not_space_at t)"

definition spec_name :: "jsstring \<Rightarrow> failure option" where
  "spec_name v =
     (if trim v = [] then Some Required
      else if length (trim v) < 2 then Some TooShort else None)"

definition spec_email :: "jsstring \<Rightarrow> failure option" where
  "spec_email v =
     (if trim v = [] then Some Required
      else if \<not> matches_email_pattern (trim v) then Some InvalidFormat else None)"

definition spec_organization :: "jsstring \<Rightarrow> failure option" where
  "spec_organization v =
     (if trim v \<noteq> [] \<and> length (trim v) < 2 then Some TooShort else None)"

definition spec_message :: "jsstring \<Rightarrow> failure option" where
  "spec_message v =
     (if trim v = [] then Some Required
      else if length (trim v) < 10 then Some TooShort else None)"

fun spec_validate :: "form_state \<Rightarrow> field \<Rightarrow> failure option" where
  "spec_validate st Name = spec_name (name st)"
| "spec_validate st Email = spec_email (email st)"
| "spec_validate st Organization = spec_organization (organization st)"
| "spec_validate st Role = None"
| "spec_validate st Message = spec_message (message st)"

text \<open>The text the component shows for each failure of each field.\<close>

fun failure_text :: "field \<Rightarrow> failure \<Rightarrow> jsstring" where
  "failure_text Name Required = js ''Name is required''"
| "failure_text Name TooShort = js ''Name must be at least 2 characters''"
| "failure_text Email Required = js ''Email is required''"
| "failure_text Email InvalidFormat = js ''Please enter a valid email address''"
| "failure_text Organization TooShort = js ''Organization must be at least 2 characters''"
| "failure_text Message Required = js ''Message is required''"
| "failure_text Message TooShort = js ''Message must be at least 10 characters''"
| "failure_text _ _ = []"

section \<open>Submission\<close>

text \<open>
  The call of \<open>fetch\<close>: the URL, the method, the headers in the order of the source,
  and the object handed to \<open>JSON.stringify\<close> with its properties in the order of
  the source.
\<close>

record request =
  req_url :: jsstring
  req_method :: jsstring
  req_headers :: "(jsstring \<times> jsstring) list"
  req_body :: "(string \<times> jsstring) list"

text \<open>
  What the awaited calls give back. \<open>fetch\<close> rejects on a network-level failure or
  resolves with a response; \<open>response.ok\<close> is the Fetch API's flag for a status of
  200 to 299; \<open>response.json()\<close> rejects when the body is not JSON and otherwise gives
  the parsed value, whatever its shape: the cast to \<open>FormspreeErrorResponse\<close> is
  unchecked.
\<close>

datatype json_result = JsonRejected | JsonValue jsvalue

record response =
  http_status :: nat
  json :: json_result

datatype fetch_result = Rejected | Resolved response

definition ok :: "response \<Rightarrow> bool" where
  "ok r \<longleftrightarrow> 200 \<le> http_status r \<and> http_status r \<le> 299"

text \<open>
  \<open>Math.ceil((COOLDOWN - timeSinceLastSubmit) / 1000)\<close>. \<open>Date.now()\<close> is a whole
  number of milliseconds, so the difference is an integer and the quotient is taken
  in the reals.
\<close>

definition remainingSeconds :: "int \<Rightarrow> int" where
  "remainingSeconds timeSinceLastSubmit =
     \<lceil>real_of_int (RATE_LIMIT_COOLDOWN_MS - timeSinceLastSubmit) / 1000\<rceil>"

definition rate_limit_message :: "int \<Rightarrow> jsstring" where
  "rate_limit_message timeSinceLastSubmit =
     js ''Please wait '' @ toString (remainingSeconds timeSinceLastSubmit)
     @ js '' seconds before submitting again.''"

definition config_error_message :: jsstring where
  "config_error_message = js ''Form configuration error. Please contact support.''"

definition server_error_message :: jsstring where
  "server_error_message = js ''Something went wrong. Please try again.''"

definition network_error_message :: jsstring where
  "network_error_message = js ''Network error. Please check your connection and try again.''"

definition all_touched :: "string \<rightharpoonup> bool" where
  "all_touched =
     [''name'' \<mapsto> True, ''email'' \<mapsto> True, ''organization'' \<mapsto> True, ''message'' \<mapsto> True]"

definition post_request :: "jsstring \<Rightarrow> form_state \<Rightarrow> request" where
  "post_request formspreeEndpoint st =
     \<lparr>req_url = formspreeEndpoint,
      req_method = js ''POST'',
      req_headers =
        [(js ''Content-Type'', js ''application/json''), (js ''Accept'', js ''application/json'')],
      req_body =
        [(''name'', trim (name st)), (''email'', trim (email st)),
         (''organization'', trim (organization st)), (''role'', role st),
         (''message'', trim (message st))]\<rparr>"

text \<open>
  \<open>handleSubmit\<close> up to the first \<open>await\<close>: the new state and the calls of \<open>fetch\<close> it
  made. The endpoint is \<open>import.meta.env.PUBLIC_FORMSPREE_ENDPOINT\<close>, \<open>None\<close> when
  the variable is not defined; \<open>!formspreeEndpoint\<close> also holds for the empty string.
\<close>

definition handleSubmit :: "jsstring option \<Rightarrow> int \<Rightarrow> form_state \<Rightarrow> form_state \<times> request list" where
  "handleSubmit env now st =
     (let st1 = st\<lparr>touched := all_touched\<rparr> in
      if \<not> isValid st1 then (st1, [])
      else
        let timeSinceLastSubmit = now - lastSubmitTime st1 in
        if timeSinceLastSubmit < RATE_LIMIT_COOLDOWN_MS
        then (st1\<lparr>errorMessage := JString (rate_limit_message timeSinceLastSubmit),
                   status := Error\<rparr>, [])
        else
          let st2 = st1\<lparr>status := Submitting, errorMessage := JString [],
                         lastSubmitTime := now\<rparr> in
          (case env of
             None \<Rightarrow> (st2\<lparr>errorMessage := JString config_error_message, status := Error\<rparr>, [])
           | Some formspreeEndpoint \<Rightarrow>
               if formspreeEndpoint = []
               then (st2\<lparr>errorMessage := JString config_error_message, status := Error\<rparr>, [])
               else (st2, [post_request formspreeEndpoint st2])))"

text \<open>
  Reading a property with optional chaining. \<open>v?.[k]\<close> for a name \<open>k\<close> that no
  prototype has (\<open>errors\<close>, \<open>message\<close>): the member of an object, \<open>undefined\<close>
  (\<open>None\<close>) on every other value, \<open>null\<close> included. \<open>v?.[0]\<close>: the first element of an
  array, the first code unit of a string, the member \<open>0\<close> of an object, \<open>undefined\<close>
  otherwise.
\<close>

definition get_prop :: "jsvalue \<Rightarrow> jsstring \<Rightarrow> jsvalue option" where
  "get_prop v k = (case v of JObject members \<Rightarrow> map_of (rev members) k | _ \<Rightarrow> None)"

definition index0 :: "jsvalue \<Rightarrow> jsvalue option" where
  "index0 v =
     (case v of
        JArray xs \<Rightarrow> (case xs of [] \<Rightarrow> None | x # _ \<Rightarrow> Some x)
      | JString s \<Rightarrow> (case s of [] \<Rightarrow> None | c # _ \<Rightarrow> Some (JString [c]))
      | JObject members \<Rightarrow> map_of (rev members) (js ''0'')
      | _ \<Rightarrow> None)"

text \<open>What \<open>||\<close> takes for true.\<close>

definition truthy :: "jsvalue \<Rightarrow> bool" where
  "truthy v =
     (case v of
        JNull \<Rightarrow> False
      | JBool b \<Rightarrow> b
      | JNumber x \<Rightarrow> x \<noteq> 0
      | JInfinity _ \<Rightarrow> True
      | JString s \<Rightarrow> s \<noteq> []
      | JArray _ \<Rightarrow> True
      | JObject _ \<Rightarrow> True)"

text \<open>\<open>data?.errors?.[0]?.message\<close>.\<close>

definition first_message :: "jsvalue \<Rightarrow> jsvalue option" where
  "first_message data =
     (case get_prop data (js ''errors'') of
        None \<Rightarrow> None
      | Some errs \<Rightarrow>
          (case index0 errs of
             None \<Rightarrow> None
           | Some item \<Rightarrow> get_prop item (js ''message'')))"

definition catch_handler :: "form_state \<Rightarrow> form_state" where
  "catch_handler st = st\<lparr>errorMessage := JString network_error_message, status := Error\<rparr>"

text \<open>
  \<open>handleSubmit\<close> from the first \<open>await\<close> on: the body of the \<open>try\<close> once \<open>fetch\<close> has
  settled, with the \<open>catch\<close> taking a rejection of \<open>fetch\<close> or of \<open>response.json()\<close>.
  The timer that moves the focus to the success panel changes no signal.
\<close>

definition handleSubmit_resume :: "fetch_result \<Rightarrow> form_state \<Rightarrow> form_state" where
  "handleSubmit_resume res st =
     (case res of
        Rejected \<Rightarrow> catch_handler st
      | Resolved r \<Rightarrow>
          if ok r
          then st\<lparr>status := Success, name := [], email := [], organization := [],
                  role := [], message := [], touched := Map.empty\<rparr>
          else
            (case json r of
               JsonRejected \<Rightarrow> catch_handler st
             | JsonValue data \<Rightarrow>
                 st\<lparr>errorMessage :=
                      (case first_message data of
                         Some m \<Rightarrow> if truthy m then m else JString server_error_message
                       | None \<Rightarrow> JString server_error_message),
                    status := Error\<rparr>))"

section \<open>The rendered form and its events\<close>

text \<open>
  Every input, the select and the submit button carry
  \<open>disabled={status() === "submitting"}\<close>; the form is rendered unless the status is
  \<open>success\<close>, when the panel with the button "Send another message" is rendered instead.
\<close>

definition disabled :: "form_state \<Rightarrow> bool" where
  "disabled st \<longleftrightarrow> status st = Submitting"

definition form_rendered :: "form_state \<Rightarrow> bool" where
  "form_rendered st \<longleftrightarrow> status st \<noteq> Success"

text \<open>What the form shows under each input: only the four validated inputs have the element.\<close>

definition displayed_error :: "form_state \<Rightarrow> field \<Rightarrow> jsstring option" where
  "displayed_error st fld =
     (if form_rendered st \<and> fld \<noteq> Role then showError st fld else None)"

text \<open>\<open>onInput\<close> (\<open>onChange\<close> for the select) of each control.\<close>

fun setField :: "field \<Rightarrow> jsstring \<Rightarrow> form_state \<Rightarrow> form_state" where
  "setField Name v st = st\<lparr>name := v\<rparr>"
| "setField Email v st = st\<lparr>email := v\<rparr>"
| "setField Organization v st = st\<lparr>organization := v\<rparr>"
| "setField Role v st = st\<lparr>role := v\<rparr>"
| "setField Message v st = st\<lparr>message := v\<rparr>"

text \<open>
  The events of the single UI thread. Each handler runs to completion. \<open>Submit now\<close> is
  the submit event of the form with \<open>Date.now() = now\<close>; \<open>FetchDone\<close> is the settling of
  the request in flight.
\<close>

datatype event =
    Input field jsstring
  | Blur field
  | Submit int
  | SendAnother
  | FetchDone fetch_result

record world =
  form :: form_state
  pending :: nat
  requests :: "request list"

definition init :: world where
  "init = \<lparr>form = initial, pending = 0, requests = []\<rparr>"

text \<open>
  The browser delivers an event only from a control that is rendered and not disabled
  (the select has no \<open>onBlur\<close>), and a request settles only while it is in flight.
\<close>

fun enabled :: "event \<Rightarrow> world \<Rightarrow> bool" where
  "enabled (Input fld v) w \<longleftrightarrow> form_rendered (form w) \<and> \<not> disabled (form w)"
| "enabled (Blur fld) w \<longleftrightarrow> form_rendered (form w) \<and> \<not> disabled (form w) \<and> fld \<noteq> Role"
| "enabled (Submit now) w \<longleftrightarrow> form_rendered (form w) \<and> \<not> disabled (form w)"
| "enabled SendAnother w \<longleftrightarrow> status (form w) = Success"
| "enabled (FetchDone res) w \<longleftrightarrow> 0 < pending w"

fun handle :: "jsstring option \<Rightarrow> event \<Rightarrow> world \<Rightarrow> world" where
  "handle env (Input fld v) w = w\<lparr>form := setField fld v (form w)\<rparr>"
| "handle env (Blur fld) w = w\<lparr>form := markTouched (key fld) (form w)\<rparr>"
| "handle env (Submit now) w =
     (case handleSubmit env now (form w) of
        (st, reqs) \<Rightarrow>
          w\<lparr>form := st, pending := pending w + length reqs, requests := requests w @ reqs\<rparr>)"
| "handle env SendAnother w = w\<lparr>form := (form w)\<lparr>status := Idle\<rparr>\<rparr>"
| "handle env (FetchDone res) w =
     w\<lparr>form := handleSubmit_resume res (form w), pending := pending w - 1\<rparr>"

definition step :: "jsstring option \<Rightarrow> event \<Rightarrow> world \<Rightarrow> world" where
  "step env e w = (if enabled e w then handle env e w else w)"

fun run :: "jsstring option \<Rightarrow> event list \<Rightarrow> world \<Rightarrow> world" where
  "run env [] w = w"
| "run env (e # es) w = run env es (step env e w)"

text \<open>
  The draft and the endpoint of the component's tests (\<open>ContactForm.test.tsx\<close>), for
  concrete runs.
\<close>

definition test_draft :: form_state where
  "test_draft =
     initial\<lparr>name := js ''John Doe'', email := js ''john@example.com'',
       message := js ''This is a test message that is long enough''\<rparr>"

definition test_endpoint :: jsstring where
  "test_endpoint = js ''https://formspree.io/f/test123''"

section \<open>The matcher decides the language of the pattern\<close>

lemma rx_lang_ConsI: "u \<in> atom_lang a \<Longrightarrow> v \<in> rx_lang r \<Longrightarrow> u @ v \<in> rx_lang (a # r)"
  by auto

lemma rx_lang_ConsE:
  assumes "w \<in> rx_lang (a # r)"
  obtains u v where "w = u @ v" "u \<in> atom_lang a" "v \<in> rx_lang r"
  using assms by auto

lemma rx_test_lang: "rx_test r s \<longleftrightarrow> s \<in> rx_lang r"
proof (induction r s rule: rx_test.induct)
  case (1 s)
  then show ?case by simp
next
  case (2 p r)
  then show ?case by simp
next
  case (3 p r c s)
  show ?case
  proof
    assume "rx_test ((p, Once) # r) (c # s)"
    with 3 have "[c] \<in> atom_lang (p, Once)" "s \<in> rx_lang r" by simp_all
    from rx_lang_ConsI [OF this] show "c # s \<in> rx_lang ((p, Once) # r)" by simp
  next
    assume "c # s \<in> rx_lang ((p, Once) # r)"
    then obtain u v where "c # s = u @ v" "u \<in> atom_lang (p, Once)" "v \<in> rx_lang r"
      by (rule rx_lang_ConsE)
    then have "p c" "s \<in> rx_lang r" by auto
    with 3 show "rx_test ((p, Once) # r) (c # s)" by simp
  qed
next
  case (4 p n r)
  then show ?case by simp
next
  case (5 p n r c s)
  show ?case
  proof
    assume "rx_test ((p, AtLeast (Suc n)) # r) (c # s)"
    with 5 have "p c" "s \<in> rx_lang ((p, AtLeast n) # r)" by simp_all
    from this(2) obtain u v where uv: "s = u @ v" "u \<in> atom_lang (p, AtLeast n)" "v \<in> rx_lang r"
      by (rule rx_lang_ConsE)
    with \<open>p c\<close> have "c # u \<in> atom_lang (p, AtLeast (Suc n))" by simp
    from rx_lang_ConsI [OF this uv(3)] uv(1) show "c # s \<in> rx_lang ((p, AtLeast (Suc n)) # r)"
      by simp
  next
    assume "c # s \<in> rx_lang ((p, AtLeast (Suc n)) # r)"
    then obtain u v where uv: "c # s = u @ v" "u \<in> atom_lang (p, AtLeast (Suc n))" "v \<in> rx_lang r"
      by (rule rx_lang_ConsE)
    then obtain u' where u: "u = c # u'" by (cases u) auto
    with uv have "s = u' @ v" "u' \<in> atom_lang (p, AtLeast n)" "p c" by auto
    from rx_lang_ConsI [OF this(2) uv(3)] this(1,3) 5
    show "rx_test ((p, AtLeast (Suc n)) # r) (c # s)" by simp
  qed
next
  case (6 p r)
  show ?case
  proof
    assume "rx_test ((p, AtLeast 0) # r) []"
    with 6 have "[] \<in> atom_lang (p, AtLeast 0)" "[] \<in> rx_lang r" by simp_all
    from rx_lang_ConsI [OF this] show "[] \<in> rx_lang ((p, AtLeast 0) # r)" by simp
  next
    assume "[] \<in> rx_lang ((p, AtLeast 0) # r)"
    then obtain u v where "[] = u @ v" "v \<in> rx_lang r" by (rule rx_lang_ConsE)
    with 6 show "rx_test ((p, AtLeast 0) # r) []" by simp
  qed
next
  case (7 p r c s)
  show ?case
  proof
    assume a: "rx_test ((p, AtLeast 0) # r) (c # s)"
    show "c # s \<in> rx_lang ((p, AtLeast 0) # r)"
    proof (cases "rx_test r (c # s)")
      case True
      with 7 have "[] \<in> atom_lang (p, AtLeast 0)" "c # s \<in> rx_lang r" by simp_all
      from rx_lang_ConsI [OF this] show ?thesis by simp
    next
      case False
      with a 7 have "p c" "s \<in> rx_lang ((p, AtLeast 0) # r)" by simp_all
      from this(2) obtain u v where uv: "s = u @ v" "u \<in> atom_lang (p, AtLeast 0)" "v \<in> rx_lang r"
        by (rule rx_lang_ConsE)
      with \<open>p c\<close> have "c # u \<in> atom_lang (p, AtLeast 0)" by simp
      from rx_lang_ConsI [OF this uv(3)] uv(1) show ?thesis by simp
    qed
  next
    assume "c # s \<in> rx_lang ((p, AtLeast 0) # r)"
    then obtain u v where uv: "c # s = u @ v" "u \<in> atom_lang (p, AtLeast 0)" "v \<in> rx_lang r"
      by (rule rx_lang_ConsE)
    show "rx_test ((p, AtLeast 0) # r) (c # s)"
    proof (cases u)
      case Nil
      with uv have "c # s \<in> rx_lang r" by simp
      with 7 show ?thesis by simp
    next
      case (Cons a u')
      with uv have "s = u' @ v" "u' \<in> atom_lang (p, AtLeast 0)" "p c" by auto
      from rx_lang_ConsI [OF this(2) uv(3)] this(1,3) 7 show ?thesis by simp
    qed
  qed
qed

section \<open>The cooldown in whole seconds\<close>

text \<open>The ceiling of the source is an integer division rounded up.\<close>

lemma remainingSeconds_div:
  "remainingSeconds t = - ((t - RATE_LIMIT_COOLDOWN_MS) div 1000)"
proof -
  have "\<lceil>real_of_int (RATE_LIMIT_COOLDOWN_MS - t) / real_of_int 1000\<rceil>
          = - (- (RATE_LIMIT_COOLDOWN_MS - t) div 1000)"
    by (rule ceiling_divide_eq_div)
  then show ?thesis by (simp add: remainingSeconds_def)
qed

text \<open>A submit inside the cooldown is told to wait at least one second.\<close>

lemma remainingSeconds_pos:
  "t < RATE_LIMIT_COOLDOWN_MS \<Longrightarrow> 1 \<le> remainingSeconds t"
  unfolding remainingSeconds_div by linarith

section \<open>Trimming\<close>

lemma trim_Nil: "trim [] = []"
  by (simp add: trim_def)

lemma trim_eq_Nil_iff: "trim w = [] \<longleftrightarrow> list_all is_space w"
proof
  assume "trim w = []"
  then have a: "\<forall>x\<in>set (dropWhile is_space w). is_space x"
    by (simp add: trim_def)
  have "dropWhile is_space w = []"
  proof (rule ccontr)
    assume ne: "dropWhile is_space w \<noteq> []"
    then have "\<not> is_space (hd (dropWhile is_space w))"
      by (rule hd_dropWhile)
    moreover from ne have "hd (dropWhile is_space w) \<in> set (dropWhile is_space w)"
      by simp
    ultimately show False using a by blast
  qed
  then show "list_all is_space w"
    by (simp add: list_all_iff)
next
  assume "list_all is_space w"
  then have e: "dropWhile is_space w = []"
    by (simp add: list_all_iff)
  show "trim w = []"
    unfolding trim_def e by simp
qed

section \<open>The email pattern\<close>

text \<open>The language of the pattern of the source, spelled out part by part.\<close>

lemma emailRegex_lang:
  "w \<in> rx_lang emailRegex \<longleftrightarrow>
     (\<exists>l d t. w = l @ [64] @ d @ [46] @ t
        \<and> l \<noteq> [] \<and> d \<noteq> [] \<and> 2 \<le> length t
        \<and> list_all not_space_at l \<and> list_all not_space_at d \<and> list_all not_space_at t)"
proof
  assume "w \<in> rx_lang emailRegex"
  then obtain l r1 where 1: "w = l @ r1" "l \<in> atom_lang (not_space_at, AtLeast 1)"
      "r1 \<in> rx_lang [((\<lambda>c. c = 64), Once), (not_space_at, AtLeast 1), ((\<lambda>c. c = 46), Once), (not_space_at, AtLeast 2)]"
    unfolding emailRegex_def by (rule rx_lang_ConsE)
  from 1(3) obtain a r2 where 2: "r1 = a @ r2" "a \<in> atom_lang ((\<lambda>c. c = 64), Once)"
      "r2 \<in> rx_lang [(not_space_at, AtLeast 1), ((\<lambda>c. c = 46), Once), (not_space_at, AtLeast 2)]"
    by (rule rx_lang_ConsE)
  from 2(3) obtain d r3 where 3: "r2 = d @ r3" "d \<in> atom_lang (not_space_at, AtLeast 1)"
      "r3 \<in> rx_lang [((\<lambda>c. c = 46), Once), (not_space_at, AtLeast 2)]"
    by (rule rx_lang_ConsE)
  from 3(3) obtain b r4 where 4: "r3 = b @ r4" "b \<in> atom_lang ((\<lambda>c. c = 46), Once)"
      "r4 \<in> rx_lang [(not_space_at, AtLeast 2)]"
    by (rule rx_lang_ConsE)
  from 4(3) obtain t r5 where 5: "r4 = t @ r5" "t \<in> atom_lang (not_space_at, AtLeast 2)"
      "r5 \<in> rx_lang []"
    by (rule rx_lang_ConsE)
  from 1 2 3 4 5 have "w = l @ [64] @ d @ [46] @ t" by simp
  moreover from 1(2) 3(2) 5(2) have "l \<noteq> []" "d \<noteq> []" "2 \<le> length t"
      "list_all not_space_at l" "list_all not_space_at d" "list_all not_space_at t"
    by (simp_all add: Suc_le_eq)
  ultimately show "\<exists>l d t. w = l @ [64] @ d @ [46] @ t
        \<and> l \<noteq> [] \<and> d \<noteq> [] \<and> 2 \<le> length t
        \<and> list_all not_space_at l \<and> list_all not_space_at d \<and> list_all not_space_at t"
    by blast
next
  assume "\<exists>l d t. w = l @ [64] @ d @ [46] @ t
        \<and> l \<noteq> [] \<and> d \<noteq> [] \<and> 2 \<le> length t
        \<and> list_all not_space_at l \<and> list_all not_space_at d \<and> list_all not_space_at t"
  then obtain l d t where w: "w = l @ [64] @ d @ [46] @ t"
      and ne: "l \<noteq> []" "d \<noteq> []" "2 \<le> length t"
      and cls: "list_all not_space_at l" "list_all not_space_at d" "list_all not_space_at t"
    by blast
  from ne cls have l: "l \<in> atom_lang (not_space_at, AtLeast 1)"
      and d: "d \<in> atom_lang (not_space_at, AtLeast 1)"
      and t: "t \<in> atom_lang (not_space_at, AtLeast 2)"
    by (simp_all add: Suc_le_eq)
  have at: "[64] \<in> atom_lang ((\<lambda>c. c = 64), Once)" and dot: "[46] \<in> atom_lang ((\<lambda>c. c = 46), Once)"
    by simp_all
  have "t @ [] \<in> rx_lang [(not_space_at, AtLeast 2)]"
    by (rule rx_lang_ConsI [OF t]) simp
  from rx_lang_ConsI [OF l rx_lang_ConsI [OF at rx_lang_ConsI [OF d rx_lang_ConsI [OF dot this]]]]
  show "w \<in> rx_lang emailRegex"
    by (simp add: w emailRegex_def)
qed

lemma validateEmail_iff: "validateEmail s \<longleftrightarrow> matches_email_pattern s"
  by (simp add: validateEmail_def rx_test_lang emailRegex_lang matches_email_pattern_def)

section \<open>Validation against the reference definition\<close>

text \<open>Rewriting the numerals of a quantifier, so that \<open>simp\<close> runs the matcher.\<close>

lemma rx_test_AtLeast_numeral:
  "rx_test ((p, AtLeast (numeral k)) # r) s = rx_test ((p, AtLeast (Suc (pred_numeral k))) # r) s"
  by (simp add: numeral_eq_Suc)

lemma rx_test_AtLeast_one:
  "rx_test ((p, AtLeast 1) # r) s = rx_test ((p, AtLeast (Suc 0)) # r) s"
  by simp

lemmas email_eval =
  js_def trim_def is_space_def WhiteSpace_def validateEmail_def emailRegex_def not_space_at_def
  rx_test_AtLeast_numeral rx_test_AtLeast_one

lemma name_too_short_text:
  "js ''Name must be at least '' @ toString (int MIN_NAME_LENGTH) @ js '' characters''
     = js ''Name must be at least 2 characters''"
  by (simp add: toString_def MIN_NAME_LENGTH_def js_def)

lemma organization_too_short_text:
  "js ''Organization must be at least '' @ toString (int MIN_ORGANIZATION_LENGTH) @ js '' characters''
     = js ''Organization must be at least 2 characters''"
  by (simp add: toString_def MIN_ORGANIZATION_LENGTH_def js_def)

lemma message_too_short_text:
  "js ''Message must be at least '' @ toString (int MIN_MESSAGE_LENGTH) @ js '' characters''
     = js ''Message must be at least 10 characters''"
  by (simp add: toString_def MIN_MESSAGE_LENGTH_def js_def)

lemmas too_short_text = name_too_short_text organization_too_short_text message_too_short_text

text \<open>The texts of the failures one field can have differ, so a text names its failure.\<close>

lemma failure_text_distinct:
  "failure_text Name Required \<noteq> failure_text Name TooShort"
  "failure_text Email Required \<noteq> failure_text Email InvalidFormat"
  "failure_text Message Required \<noteq> failure_text Message TooShort"
  by (simp_all add: js_def)

lemma err_name_reference:
  "err_name (errors st) = map_option (failure_text Name) (spec_name (name st))"
  by (simp add: errors_def spec_name_def too_short_text) (simp add: MIN_NAME_LENGTH_def)

lemma err_email_reference:
  "err_email (errors st) = map_option (failure_text Email) (spec_email (email st))"
  by (simp add: errors_def spec_email_def validateEmail_iff)

lemma err_organization_reference:
  "err_organization (errors st)
     = map_option (failure_text Organization) (spec_organization (organization st))"
  by (simp add: errors_def spec_organization_def too_short_text) (simp add: MIN_ORGANIZATION_LENGTH_def)

lemma err_message_reference:
  "err_message (errors st) = map_option (failure_text Message) (spec_message (message st))"
  by (simp add: errors_def spec_message_def too_short_text) (simp add: MIN_MESSAGE_LENGTH_def)

lemma errors_at_reference:
  "errors_at (errors st) fld = map_option (failure_text fld) (spec_validate st fld)"
  by (cases fld)
    (simp_all add: err_name_reference err_email_reference err_organization_reference
      err_message_reference)

lemma all_fields: "(\<forall>fld. P fld) \<longleftrightarrow> P Name \<and> P Email \<and> P Organization \<and> P Role \<and> P Message"
proof
  assume "P Name \<and> P Email \<and> P Organization \<and> P Role \<and> P Message"
  then show "\<forall>fld. P fld" by (metis field.exhaust)
qed simp

lemma isValid_reference: "isValid st \<longleftrightarrow> (\<forall>fld. spec_validate st fld = None)"
  by (simp add: isValid_def all_fields err_name_reference err_email_reference
      err_organization_reference err_message_reference)

lemma errors_role: "errors (st\<lparr>role := r\<rparr>) = errors st"
  by (simp add: errors_def)

lemma email_example_valid: "err_email (errors (st\<lparr>email := js ''a@b.co''\<rparr>)) = None"
  by (simp add: errors_def) (simp add: email_eval)

lemma email_example_invalid:
  "err_email (errors (st\<lparr>email := js ''invalid-email''\<rparr>)) = Some (js ''Please enter a valid email address'')"
  by (simp add: errors_def) (simp add: email_eval)

lemma email_example_empty:
  "err_email (errors (st\<lparr>email := []\<rparr>)) = Some (js ''Email is required'')"
  by (simp add: errors_def trim_Nil)

text \<open>
  C2. The memo \<open>errors\<close> gives, for every field, exactly the failure of the reference
  definition, shown as the text of that failure: the name is Required when empty after
  trimming and otherwise TooShort when its trimmed length is below 2; the email is
  Required when empty after trimming and otherwise InvalidFormat exactly when the trimmed
  value does not match the pattern; the organization is TooShort exactly when it is not
  empty after trimming and its trimmed length is below 2; the message is Required when
  empty after trimming and otherwise TooShort when its trimmed length is below 10; the
  role never fails and no error depends on it; the form is valid exactly when no field
  fails. The email \<open>a@b.co\<close> passes, \<open>invalid-email\<close> is InvalidFormat, the empty email
  is Required, a message of 10 trimmed characters passes and one of 9 is TooShort.
  Lengths count UTF-16 code units, as \<open>length\<close> of the source does; the pattern is
  matched on code points, as its \<open>u\<close> flag says.
\<close>

theorem validation_matches_reference:
  "(\<forall>fld. errors_at (errors st) fld = map_option (failure_text fld) (spec_validate st fld))
   \<and> (isValid st \<longleftrightarrow> (\<forall>fld. spec_validate st fld = None))
   \<and> (\<forall>r. errors (st\<lparr>role := r\<rparr>) = errors st)
   \<and> err_email (errors (st\<lparr>email := js ''a@b.co''\<rparr>)) = None
   \<and> err_email (errors (st\<lparr>email := js ''invalid-email''\<rparr>))
       = Some (failure_text Email InvalidFormat)
   \<and> err_email (errors (st\<lparr>email := []\<rparr>)) = Some (failure_text Email Required)
   \<and> (length (trim (message st)) = 10 \<longrightarrow> err_message (errors st) = None)
   \<and> (length (trim (message st)) = 9
        \<longrightarrow> err_message (errors st) = Some (failure_text Message TooShort))"
proof -
  have "length (trim (message st)) = 10 \<longrightarrow> err_message (errors st) = None"
    by (auto simp: err_message_reference spec_message_def)
  moreover have "length (trim (message st)) = 9
        \<longrightarrow> err_message (errors st) = Some (failure_text Message TooShort)"
    by (auto simp: err_message_reference spec_message_def)
  ultimately show ?thesis
    using errors_at_reference isValid_reference errors_role
      email_example_valid email_example_invalid email_example_empty
    by simp
qed

theorem validation_matches_reference_witness:
  "length (trim (message (initial\<lparr>message := js '' 0123456789 ''\<rparr>))) = 10
   \<and> err_message (errors (initial\<lparr>message := js '' 0123456789 ''\<rparr>)) = None
   \<and> length (trim (message (initial\<lparr>message := js ''123456789''\<rparr>))) = 9
   \<and> err_message (errors (initial\<lparr>message := js ''123456789''\<rparr>))
       = Some (js ''Message must be at least 10 characters'')"
  using validation_matches_reference [of "initial\<lparr>message := js '' 0123456789 ''\<rparr>"]
    validation_matches_reference [of "initial\<lparr>message := js ''123456789''\<rparr>"]
  by (simp add: js_def trim_def is_space_def WhiteSpace_def)

text \<open>
  C9. For each of the five fields, a value made of white space only gives the same
  validation errors as the empty value.
\<close>

theorem whitespace_only_as_empty:
  "list_all is_space w \<Longrightarrow> errors (setField fld w st) = errors (setField fld [] st)"
  by (cases fld) (simp_all add: errors_def trim_Nil trim_eq_Nil_iff)

theorem whitespace_only_as_empty_witness:
  "list_all is_space (js ''   '')
   \<and> errors (setField Message (js ''   '') initial) = errors (setField Message [] initial)"
proof -
  have h: "list_all is_space (js ''   '')"
    by (simp add: js_def is_space_def WhiteSpace_def)
  from h whitespace_only_as_empty [OF h, of Message initial] show ?thesis by simp
qed

text \<open>An organization of one space is empty after trimming and does not fail.\<close>

lemma organization_space_example:
  "err_organization (errors (st\<lparr>organization := js '' ''\<rparr>)) = None"
  by (simp add: errors_def) (simp add: js_def trim_def is_space_def WhiteSpace_def)

section \<open>The submit handler, branch by branch\<close>

lemma isValid_touched: "isValid (st\<lparr>touched := t\<rparr>) = isValid st"
  by (simp add: isValid_def errors_def)

lemma handleSubmit_invalid:
  "\<not> isValid st \<Longrightarrow> handleSubmit env now st = (st\<lparr>touched := all_touched\<rparr>, [])"
  by (simp add: handleSubmit_def isValid_touched)

lemma handleSubmit_rate_limited:
  "isValid st \<Longrightarrow> now - lastSubmitTime st < RATE_LIMIT_COOLDOWN_MS \<Longrightarrow>
   handleSubmit env now st =
     (st\<lparr>touched := all_touched,
         errorMessage := JString (rate_limit_message (now - lastSubmitTime st)), status := Error\<rparr>, [])"
  by (simp add: handleSubmit_def isValid_touched)

lemma handleSubmit_unconfigured:
  "isValid st \<Longrightarrow> RATE_LIMIT_COOLDOWN_MS \<le> now - lastSubmitTime st \<Longrightarrow>
   env = None \<or> env = Some [] \<Longrightarrow>
   handleSubmit env now st =
     (st\<lparr>touched := all_touched, lastSubmitTime := now,
         errorMessage := JString config_error_message, status := Error\<rparr>, [])"
  by (auto simp: handleSubmit_def isValid_touched)

lemma handleSubmit_post:
  "isValid st \<Longrightarrow> RATE_LIMIT_COOLDOWN_MS \<le> now - lastSubmitTime st \<Longrightarrow> url \<noteq> [] \<Longrightarrow>
   handleSubmit (Some url) now st =
     (st\<lparr>touched := all_touched, status := Submitting, errorMessage := JString [],
         lastSubmitTime := now\<rparr>,
      [post_request url st])"
  by (simp add: handleSubmit_def isValid_touched post_request_def)

lemma handleSubmit_cases:
  obtains
    (invalid) "\<not> isValid st"
      "handleSubmit env now st = (st\<lparr>touched := all_touched\<rparr>, [])"
  | (limited) "isValid st" "now - lastSubmitTime st < RATE_LIMIT_COOLDOWN_MS"
      "handleSubmit env now st =
        (st\<lparr>touched := all_touched,
            errorMessage := JString (rate_limit_message (now - lastSubmitTime st)), status := Error\<rparr>, [])"
  | (unconfigured) "isValid st" "RATE_LIMIT_COOLDOWN_MS \<le> now - lastSubmitTime st"
      "env = None \<or> env = Some []"
      "handleSubmit env now st =
        (st\<lparr>touched := all_touched, lastSubmitTime := now,
            errorMessage := JString config_error_message, status := Error\<rparr>, [])"
  | (post) url where "isValid st" "RATE_LIMIT_COOLDOWN_MS \<le> now - lastSubmitTime st"
      "env = Some url" "url \<noteq> []"
      "handleSubmit env now st =
        (st\<lparr>touched := all_touched, status := Submitting, errorMessage := JString [],
            lastSubmitTime := now\<rparr>,
         [post_request url st])"
proof (cases "isValid st")
  case False
  then show ?thesis using invalid handleSubmit_invalid by blast
next
  case v: True
  show ?thesis
  proof (cases "now - lastSubmitTime st < RATE_LIMIT_COOLDOWN_MS")
    case True
    with v show ?thesis using limited handleSubmit_rate_limited by blast
  next
    case False
    then have c: "RATE_LIMIT_COOLDOWN_MS \<le> now - lastSubmitTime st" by simp
    show ?thesis
    proof (cases "env = None \<or> env = Some []")
      case True
      with v c show ?thesis using unconfigured handleSubmit_unconfigured by blast
    next
      case False
      then obtain url where u: "env = Some url" "url \<noteq> []" by (cases env) auto
      with v c show ?thesis using post handleSubmit_post by blast
    qed
  qed
qed

section \<open>The continuation after the request\<close>

lemma resume_lastSubmitTime:
  "lastSubmitTime (handleSubmit_resume res st) = lastSubmitTime st"
  by (simp add: handleSubmit_resume_def catch_handler_def
      split: fetch_result.split json_result.split)

lemma resume_rejected:
  "handleSubmit_resume Rejected st = st\<lparr>errorMessage := JString network_error_message, status := Error\<rparr>"
  by (simp add: handleSubmit_resume_def catch_handler_def)

lemma resume_ok:
  "ok r \<Longrightarrow> handleSubmit_resume (Resolved r) st =
     st\<lparr>status := Success, name := [], email := [], organization := [],
        role := [], message := [], touched := Map.empty\<rparr>"
  by (simp add: handleSubmit_resume_def)

lemma resume_unparsable:
  "\<not> ok r \<Longrightarrow> json r = JsonRejected \<Longrightarrow>
   handleSubmit_resume (Resolved r) st =
     st\<lparr>errorMessage := JString network_error_message, status := Error\<rparr>"
  by (simp add: handleSubmit_resume_def catch_handler_def)

lemma resume_parsed:
  "\<not> ok r \<Longrightarrow> json r = JsonValue data \<Longrightarrow>
   handleSubmit_resume (Resolved r) st =
     st\<lparr>errorMessage :=
          (case first_message data of
             Some m \<Rightarrow> if truthy m then m else JString server_error_message
           | None \<Rightarrow> JString server_error_message),
        status := Error\<rparr>"
  by (simp add: handleSubmit_resume_def)

lemma resume_status:
  "status (handleSubmit_resume res st) = Success \<or> status (handleSubmit_resume res st) = Error"
  by (simp add: handleSubmit_resume_def catch_handler_def
      split: fetch_result.split json_result.split)

section \<open>Cooldown\<close>

lemma test_draft_valid: "isValid (test_draft\<lparr>lastSubmitTime := t\<rparr>)"
  by (simp add: isValid_def errors_def test_draft_def initial_def)
    (simp add: email_eval MIN_NAME_LENGTH_def MIN_MESSAGE_LENGTH_def)

text \<open>
  C1. A submit with valid fields less than 3000 ms after the recorded submission time
  makes no call of \<open>fetch\<close>, leaves the recorded time as it is and goes to \<open>error\<close>
  with the text "Please wait n seconds before submitting again.", \<open>n\<close> the ceiling of
  the remaining milliseconds over 1000; it reaches \<open>submitting\<close> only when at least
  3000 ms have passed; when they have, the recorded time becomes the time of this
  attempt at once, and the continuation that runs when the request settles never
  changes it.
\<close>

theorem cooldown_gate:
  assumes "isValid st"
  shows "(now - lastSubmitTime st < 3000 \<longrightarrow>
            handleSubmit env now st =
              (st\<lparr>touched := all_touched,
                  errorMessage :=
                    JString (js ''Please wait ''
                      @ toString \<lceil>real_of_int (3000 - (now - lastSubmitTime st)) / 1000\<rceil>
                      @ js '' seconds before submitting again.''),
                  status := Error\<rparr>, []))
       \<and> (status (fst (handleSubmit env now st)) = Submitting
            \<longrightarrow> 3000 \<le> now - lastSubmitTime st)
       \<and> (3000 \<le> now - lastSubmitTime st
            \<longrightarrow> lastSubmitTime (fst (handleSubmit env now st)) = now)
       \<and> lastSubmitTime (handleSubmit_resume res st') = lastSubmitTime st'"
proof -
  have "now - lastSubmitTime st < 3000 \<longrightarrow>
            handleSubmit env now st =
              (st\<lparr>touched := all_touched,
                  errorMessage :=
                    JString (js ''Please wait ''
                      @ toString \<lceil>real_of_int (3000 - (now - lastSubmitTime st)) / 1000\<rceil>
                      @ js '' seconds before submitting again.''),
                  status := Error\<rparr>, [])"
    using assms
    by (simp add: handleSubmit_rate_limited rate_limit_message_def remainingSeconds_def
        RATE_LIMIT_COOLDOWN_MS_def)
  moreover have "status (fst (handleSubmit env now st)) = Submitting
            \<longrightarrow> 3000 \<le> now - lastSubmitTime st"
    using assms
    by (cases rule: handleSubmit_cases [of st env now]) (auto simp: RATE_LIMIT_COOLDOWN_MS_def)
  moreover have "3000 \<le> now - lastSubmitTime st
            \<longrightarrow> lastSubmitTime (fst (handleSubmit env now st)) = now"
    using assms
    by (cases rule: handleSubmit_cases [of st env now]) (auto simp: RATE_LIMIT_COOLDOWN_MS_def)
  ultimately show ?thesis
    by (simp add: resume_lastSubmitTime)
qed

theorem cooldown_gate_witness:
  "isValid (test_draft\<lparr>lastSubmitTime := 10000\<rparr>)
   \<and> (11000::int) - lastSubmitTime (test_draft\<lparr>lastSubmitTime := 10000\<rparr>) < 3000
   \<and> handleSubmit (Some test_endpoint) 11000 (test_draft\<lparr>lastSubmitTime := 10000\<rparr>) =
       (test_draft\<lparr>lastSubmitTime := 10000, touched := all_touched,
          errorMessage := JString (js ''Please wait 2 seconds before submitting again.''),
          status := Error\<rparr>, [])
   \<and> (3000::int) \<le> 13000 - lastSubmitTime (test_draft\<lparr>lastSubmitTime := 10000\<rparr>)
   \<and> lastSubmitTime (fst (handleSubmit (Some test_endpoint) 13000
         (test_draft\<lparr>lastSubmitTime := 10000\<rparr>))) = 13000"
  using cooldown_gate [OF test_draft_valid, of 11000 10000 "Some test_endpoint"]
    cooldown_gate [OF test_draft_valid, of 13000 10000 "Some test_endpoint"]
    test_draft_valid [of 10000]
  by (simp add: toString_def js_def)

section \<open>Outcomes of the request\<close>

text \<open>
  C3. When a response with a status of 200 to 299 arrives while the form is
  \<open>submitting\<close>, the five field values and the touched record are cleared and the status
  becomes \<open>success\<close>; "Send another message" then gives \<open>idle\<close> with the form still
  empty.
\<close>

theorem success_clears_form:
  assumes "200 \<le> http_status r" and "http_status r \<le> 299"
    and "status (form w) = Submitting" and "0 < pending w"
  shows "form (step env (FetchDone (Resolved r)) w) =
           (form w)\<lparr>status := Success, name := [], email := [], organization := [],
              role := [], message := [], touched := Map.empty\<rparr>
       \<and> form (step env SendAnother (step env (FetchDone (Resolved r)) w)) =
           (form w)\<lparr>status := Idle, name := [], email := [], organization := [],
              role := [], message := [], touched := Map.empty\<rparr>"
  using assms by (simp add: step_def resume_ok ok_def)

theorem success_clears_form_witness:
  "form (step (Some test_endpoint) SendAnother
      (step (Some test_endpoint)
         (FetchDone (Resolved \<lparr>http_status = 200, json = JsonRejected\<rparr>))
         \<lparr>form = test_draft\<lparr>status := Submitting\<rparr>, pending = 1, requests = []\<rparr>))
   = initial"
  using success_clears_form [of "\<lparr>http_status = 200, json = JsonRejected\<rparr>"
      "\<lparr>form = test_draft\<lparr>status := Submitting\<rparr>, pending = 1, requests = []\<rparr>"
      "Some test_endpoint"]
  by (simp add: test_draft_def initial_def)

text \<open>
  C4, as amended. A response whose status is not 200 to 299 sets the status to
  \<open>error\<close> and changes nothing but the banner text, whatever its body. When the body is
  JSON, the banner takes the value of \<open>errors[0].message\<close> if that value is truthy, and
  "Something went wrong. Please try again." if there is no such value or it is not
  truthy; so for a body of the shape \<open>{ errors: [{ message: string }, ...] }\<close> it takes
  the first message if there is one and it is not empty. When the body is not JSON,
  the text is the network-error text. A rejected \<open>fetch\<close> sets the status to \<open>error\<close>
  with the network-error text and changes nothing else.
\<close>

theorem failure_keeps_fields:
  assumes "\<not> (200 \<le> http_status r \<and> http_status r \<le> 299)"
  shows "status (handleSubmit_resume (Resolved r) st) = Error
       \<and> (\<exists>shown. handleSubmit_resume (Resolved r) st = st\<lparr>errorMessage := shown, status := Error\<rparr>)
       \<and> (\<forall>data m. json r = JsonValue data \<and> first_message data = Some m \<and> truthy m
            \<longrightarrow> errorMessage (handleSubmit_resume (Resolved r) st) = m)
       \<and> (\<forall>data item rest m.
              json r = JsonValue data
              \<and> get_prop data (js ''errors'') = Some (JArray (item # rest))
              \<and> get_prop item (js ''message'') = Some (JString m) \<and> m \<noteq> []
            \<longrightarrow> errorMessage (handleSubmit_resume (Resolved r) st) = JString m)
       \<and> (\<forall>data. json r = JsonValue data
              \<and> (first_message data = None \<or> (\<exists>m. first_message data = Some m \<and> \<not> truthy m))
            \<longrightarrow> errorMessage (handleSubmit_resume (Resolved r) st)
                = JString (js ''Something went wrong. Please try again.''))
       \<and> (json r = JsonRejected
            \<longrightarrow> errorMessage (handleSubmit_resume (Resolved r) st)
                = JString (js ''Network error. Please check your connection and try again.''))
       \<and> handleSubmit_resume Rejected st =
            st\<lparr>errorMessage :=
                 JString (js ''Network error. Please check your connection and try again.''),
               status := Error\<rparr>"
proof -
  from assms have n: "\<not> ok r" by (simp add: ok_def)
  have 1: "\<exists>shown. handleSubmit_resume (Resolved r) st = st\<lparr>errorMessage := shown, status := Error\<rparr>"
  proof (cases "json r")
    case JsonRejected
    with n show ?thesis using resume_unparsable by blast
  next
    case (JsonValue data)
    with n show ?thesis using resume_parsed by blast
  qed
  then have 0: "status (handleSubmit_resume (Resolved r) st) = Error" by auto
  have 2: "\<forall>data m. json r = JsonValue data \<and> first_message data = Some m \<and> truthy m
            \<longrightarrow> errorMessage (handleSubmit_resume (Resolved r) st) = m"
    using n by (auto simp: resume_parsed)
  have 3: "\<forall>data item rest m.
              json r = JsonValue data
              \<and> get_prop data (js ''errors'') = Some (JArray (item # rest))
              \<and> get_prop item (js ''message'') = Some (JString m) \<and> m \<noteq> []
            \<longrightarrow> errorMessage (handleSubmit_resume (Resolved r) st) = JString m"
    using n by (auto simp: resume_parsed first_message_def index0_def truthy_def)
  have 4: "\<forall>data. json r = JsonValue data
              \<and> (first_message data = None \<or> (\<exists>m. first_message data = Some m \<and> \<not> truthy m))
            \<longrightarrow> errorMessage (handleSubmit_resume (Resolved r) st)
                = JString (js ''Something went wrong. Please try again.'')"
    using n by (auto simp: resume_parsed server_error_message_def)
  have 5: "json r = JsonRejected
            \<longrightarrow> errorMessage (handleSubmit_resume (Resolved r) st)
                = JString (js ''Network error. Please check your connection and try again.'')"
    using n by (simp add: resume_unparsable network_error_message_def)
  from 0 1 2 3 4 5 show ?thesis
    by (simp add: resume_rejected network_error_message_def)
qed

text \<open>The bodies of the runs below.\<close>

lemma first_message_examples:
  "first_message (JObject [(js ''errors'', JArray [JObject [(js ''message'', JString (js ''Server error''))]])])
     = Some (JString (js ''Server error''))"
  "first_message (JObject [(js ''errors'', JArray [JObject [(js ''message'', JString [])]])])
     = Some (JString [])"
  "first_message (JObject [(js ''errors'', JArray [JObject [(js ''message'', JNumber 42)]])])
     = Some (JNumber 42)"
  "first_message (JObject []) = None"
  "first_message JNull = None"
  by (simp_all add: first_message_def get_prop_def index0_def js_def)

theorem failure_keeps_fields_witness:
  "\<not> (200 \<le> (422::nat) \<and> (422::nat) \<le> 299)
   \<and> handleSubmit_resume
        (Resolved \<lparr>http_status = 422,
           json = JsonValue (JObject [(js ''errors'',
                    JArray [JObject [(js ''message'', JString (js ''Server error''))]])])\<rparr>)
        (test_draft\<lparr>status := Submitting\<rparr>)
      = test_draft\<lparr>errorMessage := JString (js ''Server error''), status := Error\<rparr>
   \<and> errorMessage (handleSubmit_resume
        (Resolved \<lparr>http_status = 500, json = JsonValue (JObject [])\<rparr>)
        (test_draft\<lparr>status := Submitting\<rparr>))
      = JString (js ''Something went wrong. Please try again.'')"
proof -
  let ?body = "JObject [(js ''errors'',
                    JArray [JObject [(js ''message'', JString (js ''Server error''))]])]"
  let ?r = "\<lparr>http_status = 422, json = JsonValue ?body\<rparr>"
  let ?q = "\<lparr>http_status = 500, json = JsonValue (JObject [])\<rparr>"
  let ?st = "test_draft\<lparr>status := Submitting\<rparr>"
  have a: "\<not> (200 \<le> http_status ?r \<and> http_status ?r \<le> 299)" by simp
  have b: "\<not> (200 \<le> http_status ?q \<and> http_status ?q \<le> 299)" by simp
  have ne: "js ''Server error'' \<noteq> []" by (simp add: js_def)
  have pe: "get_prop ?body (js ''errors'')
      = Some (JArray (JObject [(js ''message'', JString (js ''Server error''))] # []))"
    by (simp add: get_prop_def)
  have pm: "get_prop (JObject [(js ''message'', JString (js ''Server error''))]) (js ''message'')
      = Some (JString (js ''Server error''))"
    by (simp add: get_prop_def)
  from failure_keeps_fields [OF a, of ?st]
  obtain shown where t: "handleSubmit_resume (Resolved ?r) ?st = ?st\<lparr>errorMessage := shown, status := Error\<rparr>"
    and m: "\<forall>data item rest m.
              json ?r = JsonValue data
              \<and> get_prop data (js ''errors'') = Some (JArray (item # rest))
              \<and> get_prop item (js ''message'') = Some (JString m) \<and> m \<noteq> []
            \<longrightarrow> errorMessage (handleSubmit_resume (Resolved ?r) ?st) = JString m"
    by blast
  from m pe pm ne have "errorMessage (handleSubmit_resume (Resolved ?r) ?st) = JString (js ''Server error'')"
    by simp
  with t have "shown = JString (js ''Server error'')" by simp
  with t have "handleSubmit_resume (Resolved ?r) ?st
      = test_draft\<lparr>errorMessage := JString (js ''Server error''), status := Error\<rparr>" by simp
  moreover from failure_keeps_fields [OF b, of ?st]
  have "errorMessage (handleSubmit_resume (Resolved ?q) ?st)
      = JString (js ''Something went wrong. Please try again.'')"
    by (simp add: first_message_examples)
  ultimately show ?thesis by simp
qed

text \<open>
  C4 as first stated fails where the first message is the empty string: the body has
  the expected shape and its first message is there, and the banner shows the fallback
  text, because the source takes the message with \<open>||\<close>.
\<close>

theorem empty_first_message_counterexample:
  "first_message (JObject [(js ''errors'', JArray [JObject [(js ''message'', JString [])]])])
     = Some (JString [])
   \<and> errorMessage (handleSubmit_resume
        (Resolved \<lparr>http_status = 422,
           json = JsonValue (JObject [(js ''errors'',
                    JArray [JObject [(js ''message'', JString [])]])])\<rparr>)
        (test_draft\<lparr>status := Submitting\<rparr>))
      = JString (js ''Something went wrong. Please try again.'')
   \<and> JString (js ''Something went wrong. Please try again.'') \<noteq> JString []"
  by (simp add: handleSubmit_resume_def first_message_examples ok_def server_error_message_def
      truthy_def)
    (simp add: js_def)

text \<open>
  A body that is not of the declared type is not checked: where the first message is
  the number 42, the signal of the banner text comes to hold that number.
\<close>

lemma number_message_shown:
  "errorMessage (handleSubmit_resume
        (Resolved \<lparr>http_status = 422,
           json = JsonValue (JObject [(js ''errors'',
                    JArray [JObject [(js ''message'', JNumber 42)]])])\<rparr>)
        (test_draft\<lparr>status := Submitting\<rparr>))
      = JNumber 42"
  by (simp add: handleSubmit_resume_def first_message_examples ok_def truthy_def)

section \<open>The endpoint and the request\<close>

text \<open>
  C6. A submit with valid fields and the cooldown over, with the endpoint undefined or
  empty, ends in \<open>error\<close> with the text "Form configuration error. Please contact
  support." and makes no call of \<open>fetch\<close>.
\<close>

theorem unconfigured_endpoint_fails:
  assumes "isValid st" and "3000 \<le> now - lastSubmitTime st"
    and "env = None \<or> env = Some []"
  shows "handleSubmit env now st =
     (st\<lparr>touched := all_touched, lastSubmitTime := now,
         errorMessage := JString (js ''Form configuration error. Please contact support.''),
         status := Error\<rparr>, [])"
  using assms
  by (simp add: handleSubmit_unconfigured RATE_LIMIT_COOLDOWN_MS_def config_error_message_def)

theorem unconfigured_endpoint_fails_witness:
  "isValid test_draft \<and> (3000::int) \<le> 5000 - lastSubmitTime test_draft
   \<and> handleSubmit None 5000 test_draft =
     (test_draft\<lparr>touched := all_touched, lastSubmitTime := 5000,
         errorMessage := JString (js ''Form configuration error. Please contact support.''),
         status := Error\<rparr>, [])"
proof -
  have v: "isValid test_draft"
    using test_draft_valid [of 0] by (simp add: test_draft_def initial_def)
  have c: "(3000::int) \<le> 5000 - lastSubmitTime test_draft"
    by (simp add: test_draft_def initial_def)
  from v c unconfigured_endpoint_fails [OF v c, of None] show ?thesis by simp
qed

text \<open>
  C7. A submit with valid fields, the cooldown over and an endpoint configured enters
  \<open>submitting\<close> and makes exactly one call of \<open>fetch\<close>: a POST to the endpoint with the
  headers Content-Type and Accept set to application/json and a body of exactly the
  properties name, email, organization, role and message, where role is the current
  value as it is and the other four are the current values trimmed.
\<close>

theorem one_post_on_submitting:
  assumes "isValid st" and "3000 \<le> now - lastSubmitTime st"
    and "env = Some url" and "url \<noteq> []"
  shows "handleSubmit env now st =
     (st\<lparr>touched := all_touched, status := Submitting, errorMessage := JString [],
         lastSubmitTime := now\<rparr>,
      [\<lparr>req_url = url, req_method = js ''POST'',
        req_headers =
          [(js ''Content-Type'', js ''application/json''),
           (js ''Accept'', js ''application/json'')],
        req_body =
          [(''name'', trim (name st)), (''email'', trim (email st)),
           (''organization'', trim (organization st)), (''role'', role st),
           (''message'', trim (message st))]\<rparr>])"
  using assms
  by (simp add: handleSubmit_post RATE_LIMIT_COOLDOWN_MS_def post_request_def)

theorem one_post_on_submitting_witness:
  "isValid (test_draft\<lparr>role := js '' Other ''\<rparr>)
   \<and> (3000::int) \<le> 5000 - lastSubmitTime (test_draft\<lparr>role := js '' Other ''\<rparr>)
   \<and> test_endpoint \<noteq> []
   \<and> snd (handleSubmit (Some test_endpoint) 5000 (test_draft\<lparr>role := js '' Other ''\<rparr>)) =
      [\<lparr>req_url = test_endpoint, req_method = js ''POST'',
        req_headers =
          [(js ''Content-Type'', js ''application/json''),
           (js ''Accept'', js ''application/json'')],
        req_body =
          [(''name'', js ''John Doe''), (''email'', js ''john@example.com''),
           (''organization'', []), (''role'', js '' Other ''),
           (''message'', js ''This is a test message that is long enough'')]\<rparr>]"
proof -
  let ?st = "test_draft\<lparr>role := js '' Other ''\<rparr>"
  have "isValid test_draft"
    using test_draft_valid [of 0] by (simp add: test_draft_def initial_def)
  then have v: "isValid ?st"
    by (simp add: isValid_def errors_role)
  have c: "(3000::int) \<le> 5000 - lastSubmitTime ?st"
    by (simp add: test_draft_def initial_def)
  have u: "test_endpoint \<noteq> []"
    by (simp add: test_endpoint_def js_def)
  from v c u one_post_on_submitting [OF v c refl u] show ?thesis
    by (simp add: test_draft_def initial_def js_def trim_def is_space_def WhiteSpace_def)
qed

text \<open>
  C10. A response whose status is not 200 to 299 and whose body is not JSON sets the
  status to \<open>error\<close> with the network-error text, which is not the server-error
  fallback, and changes nothing else: the rejection of \<open>response.json()\<close> lands in the
  \<open>catch\<close> of the request.
\<close>

theorem unparsable_body_network_error:
  assumes "\<not> (200 \<le> http_status r \<and> http_status r \<le> 299)" and "json r = JsonRejected"
  shows "handleSubmit_resume (Resolved r) st =
           st\<lparr>errorMessage :=
                JString (js ''Network error. Please check your connection and try again.''),
              status := Error\<rparr>
       \<and> js ''Network error. Please check your connection and try again.''
           \<noteq> js ''Something went wrong. Please try again.''"
  using assms
  by (simp add: resume_unparsable ok_def network_error_message_def) (simp add: js_def)

theorem unparsable_body_network_error_witness:
  "\<not> (200 \<le> (502::nat) \<and> (502::nat) \<le> 299)
   \<and> handleSubmit_resume (Resolved \<lparr>http_status = 502, json = JsonRejected\<rparr>)
        (test_draft\<lparr>status := Submitting\<rparr>)
      = test_draft\<lparr>errorMessage :=
             JString (js ''Network error. Please check your connection and try again.''),
           status := Error\<rparr>"
  using unparsable_body_network_error [of "\<lparr>http_status = 502, json = JsonRejected\<rparr>"
      "test_draft\<lparr>status := Submitting\<rparr>"]
  by simp

section \<open>Runs of events\<close>

lemma step_disabled: "\<not> enabled e w \<Longrightarrow> step env e w = w"
  by (simp add: step_def)

lemma key_inj: "key f = key g \<Longrightarrow> f = g"
  by (cases f; cases g) simp_all

lemma status_setField: "status (setField fld v st) = status st"
  by (cases fld) simp_all

lemma touched_setField: "touched (setField fld v st) = touched st"
  by (cases fld) simp_all

lemma handleSubmit_touched: "touched (fst (handleSubmit env now st)) = all_touched"
  by (cases rule: handleSubmit_cases [of st env now]) simp_all

lemma handleSubmit_effect:
  assumes "status st \<noteq> Submitting"
  shows "length (snd (handleSubmit env now st))
           = (if status (fst (handleSubmit env now st)) = Submitting then 1 else 0)"
  using assms by (cases rule: handleSubmit_cases [of st env now]) simp_all

lemma handleSubmit_not_success:
  "status st \<noteq> Success \<Longrightarrow> status (fst (handleSubmit env now st)) \<noteq> Success"
  by (cases rule: handleSubmit_cases [of st env now]) simp_all

lemma resume_touched:
  "touched (handleSubmit_resume res st) = touched st
   \<or> touched (handleSubmit_resume res st) = Map.empty"
  by (simp add: handleSubmit_resume_def catch_handler_def
      split: fetch_result.split json_result.split)

lemma touched_step:
  assumes "touched (form (step env e w)) k = Some True"
  shows "touched (form w) k = Some True \<or> (\<exists>fld. e = Blur fld \<and> key fld = k)
         \<or> (\<exists>now. e = Submit now)"
proof (cases "enabled e w")
  case False
  with assms show ?thesis by (simp add: step_def)
next
  case True
  show ?thesis
  proof (cases e)
    case (Input fld v)
    with assms True show ?thesis by (simp add: step_def touched_setField)
  next
    case (Blur fld)
    with assms True show ?thesis
      by (cases "key fld = k") (simp_all add: step_def markTouched_def)
  next
    case (Submit now)
    then show ?thesis by simp
  next
    case SendAnother
    with assms True show ?thesis by (simp add: step_def)
  next
    case (FetchDone res)
    with assms True resume_touched [of res "form w"] show ?thesis
      by (auto simp: step_def)
  qed
qed

lemma touched_run:
  "touched (form (run env es w)) k = Some True \<Longrightarrow>
   touched (form w) k = Some True \<or> (\<exists>fld. Blur fld \<in> set es \<and> key fld = k)
   \<or> (\<exists>now. Submit now \<in> set es)"
proof (induction es arbitrary: w)
  case Nil
  then show ?case by simp
next
  case (Cons e es)
  from Cons.prems have "touched (form (run env es (step env e w))) k = Some True" by simp
  from Cons.IH [OF this] consider
      (old) "touched (form (step env e w)) k = Some True"
    | (blur) fld where "Blur fld \<in> set es" "key fld = k"
    | (submit) now where "Submit now \<in> set es"
    by blast
  then show ?case
  proof cases
    case old
    from touched_step [OF this] show ?thesis by auto
  next
    case blur
    then show ?thesis by auto
  next
    case submit
    then show ?thesis by auto
  qed
qed

text \<open>
  In every world reached from the initial one, a request is in flight exactly while the
  status is \<open>submitting\<close>, and never more than one.
\<close>

lemma pending_step:
  assumes "pending w = (if status (form w) = Submitting then 1 else 0)"
  shows "pending (step env e w) = (if status (form (step env e w)) = Submitting then 1 else 0)"
proof (cases "enabled e w")
  case False
  with assms show ?thesis by (simp add: step_def)
next
  case True
  show ?thesis
  proof (cases e)
    case (Input fld v)
    with assms True show ?thesis by (simp add: step_def status_setField)
  next
    case (Blur fld)
    with assms True show ?thesis by (simp add: step_def markTouched_def)
  next
    case (Submit now)
    with True have n: "status (form w) \<noteq> Submitting" by (simp add: disabled_def)
    with assms have "pending w = 0" by simp
    with Submit True handleSubmit_effect [OF n, of env now] show ?thesis
      by (cases "handleSubmit env now (form w)") (auto simp: step_def split: if_splits)
  next
    case SendAnother
    with assms True show ?thesis by (simp add: step_def)
  next
    case (FetchDone res)
    with True assms have "pending w = 1"
      by (simp split: if_splits)
    with FetchDone True resume_status [of res "form w"] show ?thesis
      by (auto simp: step_def)
  qed
qed

lemma pending_run:
  "pending w = (if status (form w) = Submitting then 1 else 0) \<Longrightarrow>
   pending (run env es w) = (if status (form (run env es w)) = Submitting then 1 else 0)"
proof (induction es arbitrary: w)
  case Nil
  then show ?case by simp
next
  case (Cons e es)
  from Cons.IH [OF pending_step [OF Cons.prems]] show ?case by simp
qed

lemma one_request_in_flight:
  "pending (run env es init) = (if status (form (run env es init)) = Submitting then 1 else 0)"
  by (rule pending_run) (simp add: init_def initial_def)

text \<open>
  The handler itself does not read the status: what keeps a second submit away while
  a request is in flight is the \<open>disabled\<close> attribute of the controls.
\<close>

lemma handleSubmit_ignores_status:
  "snd (handleSubmit env now (st\<lparr>status := s\<rparr>)) = snd (handleSubmit env now st)
   \<and> status (fst (handleSubmit env now (st\<lparr>status := s\<rparr>)))
       = (if isValid st then status (fst (handleSubmit env now st)) else s)"
  by (auto simp: handleSubmit_def Let_def isValid_touched isValid_def errors_def post_request_def
      split: option.split)

text \<open>
  C5. While the status is \<open>submitting\<close>, every input and the submit button are
  disabled; an event other than the settling of the request is not delivered and
  leaves the world as it is; an event after which the status is no longer
  \<open>submitting\<close> is the settling of the request, and the status is then \<open>success\<close> or
  \<open>error\<close>; the settling of a request in flight always gives \<open>success\<close> or \<open>error\<close>, and
  in a world reached from the initial one a request is in flight. Events are the
  handlers of the single UI thread, each run to completion.
\<close>

theorem submitting_locked:
  assumes "status (form w) = Submitting"
  shows "disabled (form w)
       \<and> (\<forall>e. (\<forall>res. e \<noteq> FetchDone res) \<longrightarrow> \<not> enabled e w \<and> step env e w = w)
       \<and> (\<forall>e. status (form (step env e w)) \<noteq> Submitting \<longrightarrow>
             (\<exists>res. e = FetchDone res)
             \<and> (status (form (step env e w)) = Success \<or> status (form (step env e w)) = Error))
       \<and> (0 < pending w \<longrightarrow>
             (\<forall>res. status (form (step env (FetchDone res) w)) = Success
                  \<or> status (form (step env (FetchDone res) w)) = Error))
       \<and> (\<forall>es. w = run env es init \<longrightarrow> 0 < pending w)"
proof -
  have d: "disabled (form w)"
    using assms by (simp add: disabled_def)
  have off: "\<not> enabled e w" if "\<forall>res. e \<noteq> FetchDone res" for e
    using that assms d by (cases e) (simp_all add: form_rendered_def)
  have a: "\<forall>e. (\<forall>res. e \<noteq> FetchDone res) \<longrightarrow> \<not> enabled e w \<and> step env e w = w"
    using off by (simp add: step_def)
  have b: "(\<exists>res. e = FetchDone res)
             \<and> (status (form (step env e w)) = Success \<or> status (form (step env e w)) = Error)"
    if "status (form (step env e w)) \<noteq> Submitting" for e
  proof (cases "\<forall>res. e \<noteq> FetchDone res")
    case True
    with a have "step env e w = w" by blast
    with that assms show ?thesis by simp
  next
    case False
    then obtain res where e: "e = FetchDone res" by blast
    show ?thesis
    proof (cases "enabled e w")
      case True
      with e resume_status [of res "form w"] show ?thesis by (simp add: step_def)
    next
      case False
      with that assms show ?thesis by (simp add: step_def)
    qed
  qed
  have c: "0 < pending w \<longrightarrow>
             (\<forall>res. status (form (step env (FetchDone res) w)) = Success
                  \<or> status (form (step env (FetchDone res) w)) = Error)"
    using resume_status by (simp add: step_def)
  have r: "\<forall>es. w = run env es init \<longrightarrow> 0 < pending w"
  proof (intro allI impI)
    fix es
    assume "w = run env es init"
    with assms one_request_in_flight [of env es] show "0 < pending w" by simp
  qed
  from d a b c r show ?thesis by blast
qed

text \<open>The test's run: fill in the draft and submit at time 5000.\<close>

lemma test_run_submitting:
  "run (Some test_endpoint)
     [Input Name (js ''John Doe''), Input Email (js ''john@example.com''),
      Input Message (js ''This is a test message that is long enough''), Submit 5000] init
   = \<lparr>form = test_draft\<lparr>touched := all_touched, status := Submitting, lastSubmitTime := 5000\<rparr>,
      pending = 1, requests = [post_request test_endpoint test_draft]\<rparr>"
proof -
  have v: "isValid test_draft"
    using test_draft_valid [of 0] by (simp add: test_draft_def initial_def)
  have "run (Some test_endpoint)
     [Input Name (js ''John Doe''), Input Email (js ''john@example.com''),
      Input Message (js ''This is a test message that is long enough'')] init
     = \<lparr>form = test_draft, pending = 0, requests = []\<rparr>"
    by (simp add: step_def init_def initial_def test_draft_def form_rendered_def disabled_def)
  moreover have "handleSubmit (Some test_endpoint) 5000 test_draft =
     (test_draft\<lparr>touched := all_touched, status := Submitting, errorMessage := JString [],
         lastSubmitTime := 5000\<rparr>, [post_request test_endpoint test_draft])"
    by (rule handleSubmit_post [OF v])
      (simp_all add: test_draft_def initial_def RATE_LIMIT_COOLDOWN_MS_def test_endpoint_def js_def)
  moreover have "run env (es @ [e]) w = step env e (run env es w)" for env es e w
    by (induction es arbitrary: w) simp_all
  from this [of "Some test_endpoint" "[Input Name (js ''John Doe''), Input Email (js ''john@example.com''),
      Input Message (js ''This is a test message that is long enough'')]" "Submit 5000" init]
  have "run (Some test_endpoint)
     [Input Name (js ''John Doe''), Input Email (js ''john@example.com''),
      Input Message (js ''This is a test message that is long enough''), Submit 5000] init
     = step (Some test_endpoint) (Submit 5000) (run (Some test_endpoint)
     [Input Name (js ''John Doe''), Input Email (js ''john@example.com''),
      Input Message (js ''This is a test message that is long enough'')] init)"
    by simp
  ultimately show ?thesis
    by (simp add: step_def form_rendered_def disabled_def)
      (simp add: test_draft_def initial_def)
qed

theorem submitting_locked_witness:
  "status (form (run (Some test_endpoint)
     [Input Name (js ''John Doe''), Input Email (js ''john@example.com''),
      Input Message (js ''This is a test message that is long enough''), Submit 5000] init))
     = Submitting
   \<and> step (Some test_endpoint) (Submit 9000)
       (run (Some test_endpoint)
         [Input Name (js ''John Doe''), Input Email (js ''john@example.com''),
          Input Message (js ''This is a test message that is long enough''), Submit 5000] init)
     = run (Some test_endpoint)
         [Input Name (js ''John Doe''), Input Email (js ''john@example.com''),
          Input Message (js ''This is a test message that is long enough''), Submit 5000] init
   \<and> status (form (step (Some test_endpoint) (FetchDone Rejected)
       (run (Some test_endpoint)
         [Input Name (js ''John Doe''), Input Email (js ''john@example.com''),
          Input Message (js ''This is a test message that is long enough''), Submit 5000] init)))
     = Error"
proof -
  let ?w = "run (Some test_endpoint)
     [Input Name (js ''John Doe''), Input Email (js ''john@example.com''),
      Input Message (js ''This is a test message that is long enough''), Submit 5000] init"
  have s: "status (form ?w) = Submitting"
    by (simp only: test_run_submitting) simp
  have p: "0 < pending ?w"
    by (simp only: test_run_submitting) simp
  from submitting_locked [OF s, of "Some test_endpoint"]
  have "step (Some test_endpoint) (Submit 9000) ?w = ?w"
    and "status (form (step (Some test_endpoint) (FetchDone Rejected) ?w)) \<noteq> Submitting \<longrightarrow>
      status (form (step (Some test_endpoint) (FetchDone Rejected) ?w)) = Success
      \<or> status (form (step (Some test_endpoint) (FetchDone Rejected) ?w)) = Error"
    by blast+
  moreover have "status (form (step (Some test_endpoint) (FetchDone Rejected) ?w)) = Error"
    using p by (simp add: step_def resume_rejected)
  ultimately show ?thesis using s by simp
qed

text \<open>
  C8. In every state, the form shows a validation error for a field only if the touched
  record holds that field, and shows none for a field it does not hold, whatever the
  field's value. In a world reached from the initial one, a field is in the touched
  record only if the run has a blur of that field or a submit; a submit that the form
  delivers puts each of the four validated fields in the record.
\<close>

theorem error_only_when_touched:
  "(displayed_error st fld = Some m \<longrightarrow> touched st (key fld) = Some True)
   \<and> (touched st (key fld) \<noteq> Some True \<longrightarrow> displayed_error st fld = None)
   \<and> (touched (form (run env es init)) (key fld) = Some True \<longrightarrow>
        Blur fld \<in> set es \<or> (\<exists>now. Submit now \<in> set es))
   \<and> (enabled (Submit now) w \<and> fld \<noteq> Role \<longrightarrow>
        touched (form (step env (Submit now) w)) (key fld) = Some True)"
proof -
  have 1: "displayed_error st fld = Some m \<longrightarrow> touched st (key fld) = Some True"
    by (simp add: displayed_error_def showError_def split: if_splits)
  have 2: "touched st (key fld) \<noteq> Some True \<longrightarrow> displayed_error st fld = None"
    by (simp add: displayed_error_def showError_def)
  have 3: "Blur fld \<in> set es \<or> (\<exists>now. Submit now \<in> set es)"
    if t: "touched (form (run env es init)) (key fld) = Some True"
  proof -
    from touched_run [OF t] consider
        (old) "touched (form init) (key fld) = Some True"
      | (blur) g where "Blur g \<in> set es" "key g = key fld"
      | (submit) now where "Submit now \<in> set es"
      by blast
    then show ?thesis
    proof cases
      case old
      then show ?thesis by (simp add: init_def initial_def)
    next
      case blur
      with key_inj [of g fld] show ?thesis by simp
    next
      case submit
      then show ?thesis by blast
    qed
  qed
  have 4: "enabled (Submit now) w \<and> fld \<noteq> Role \<longrightarrow>
        touched (form (step env (Submit now) w)) (key fld) = Some True"
  proof
    assume a: "enabled (Submit now) w \<and> fld \<noteq> Role"
    then have "form (step env (Submit now) w) = fst (handleSubmit env now (form w))"
      by (cases "handleSubmit env now (form w)") (simp add: step_def)
    with a show "touched (form (step env (Submit now) w)) (key fld) = Some True"
      by (cases fld) (simp_all add: handleSubmit_touched all_touched_def)
  qed
  from 1 2 3 4 show ?thesis by blast
qed

theorem error_only_when_touched_witness:
  "displayed_error (form (run None [Blur Name] init)) Name = Some (js ''Name is required'')
   \<and> touched (form (run None [Blur Name] init)) (key Name) = Some True
   \<and> Blur Name \<in> set [Blur Name]
   \<and> touched (form init) (key Email) \<noteq> Some True
   \<and> displayed_error (form init) Email = None
   \<and> enabled (Submit 5000) init
   \<and> touched (form (step None (Submit 5000) init)) (key Email) = Some True"
proof -
  have d: "displayed_error (form (run None [Blur Name] init)) Name = Some (js ''Name is required'')"
    by (simp add: step_def init_def initial_def form_rendered_def disabled_def markTouched_def
        displayed_error_def showError_def errors_def trim_Nil)
  have u: "touched (form init) (key Email) \<noteq> Some True"
    by (simp add: init_def initial_def)
  have e: "enabled (Submit 5000) init"
    by (simp add: init_def initial_def form_rendered_def disabled_def)
  from error_only_when_touched [of "form (run None [Blur Name] init)" Name "js ''Name is required''"
      None "[Blur Name]" 5000 init] d
  have "touched (form (run None [Blur Name] init)) (key Name) = Some True"
    by blast
  moreover from error_only_when_touched [of "form init" Email "[]" None "[]" 5000 init] u e
  have "displayed_error (form init) Email = None"
    and "touched (form (step None (Submit 5000) init)) (key Email) = Some True"
    by simp_all
  ultimately show ?thesis using d u e by simp
qed

section \<open>Two submits inside the cooldown\<close>

text \<open>
  The run of the test "prevents multiple rapid submissions": submit at 5000, a response
  with status 200, "Send another message", the same draft again and a submit at 5500.
  One request has been made, and the second submit ends in \<open>error\<close> with the text of
  the rate limit.
\<close>

lemma run_append: "run env (es @ fs) w = run env fs (run env es w)"
  by (induction es arbitrary: w) simp_all

lemma test_fill:
  "status (form w) = Idle \<Longrightarrow> form w = initial\<lparr>lastSubmitTime := t\<rparr> \<Longrightarrow>
   run env
     [Input Name (js ''John Doe''), Input Email (js ''john@example.com''),
      Input Message (js ''This is a test message that is long enough'')] w
   = w\<lparr>form := test_draft\<lparr>lastSubmitTime := t\<rparr>\<rparr>"
  by (simp add: step_def initial_def test_draft_def form_rendered_def disabled_def)

lemma rapid_second_submit:
  "run (Some test_endpoint)
     ([Input Name (js ''John Doe''), Input Email (js ''john@example.com''),
       Input Message (js ''This is a test message that is long enough''), Submit 5000]
      @ [FetchDone (Resolved \<lparr>http_status = 200, json = JsonRejected\<rparr>), SendAnother]
      @ [Input Name (js ''John Doe''), Input Email (js ''john@example.com''),
         Input Message (js ''This is a test message that is long enough'')]
      @ [Submit 5500]) init
   = \<lparr>form = test_draft\<lparr>touched := all_touched, lastSubmitTime := 5000,
              errorMessage := JString (js ''Please wait 3 seconds before submitting again.''),
              status := Error\<rparr>,
      pending = 0, requests = [post_request test_endpoint test_draft]\<rparr>"
proof -
  let ?fill = "[Input Name (js ''John Doe''), Input Email (js ''john@example.com''),
       Input Message (js ''This is a test message that is long enough'')]"
  let ?w1 = "\<lparr>form = test_draft\<lparr>touched := all_touched, status := Submitting, lastSubmitTime := 5000\<rparr>,
      pending = 1, requests = [post_request test_endpoint test_draft]\<rparr>"
  let ?w2 = "\<lparr>form = initial\<lparr>lastSubmitTime := 5000\<rparr>,
      pending = 0, requests = [post_request test_endpoint test_draft]\<rparr>"
  note 1 = test_run_submitting
  have 2: "run (Some test_endpoint)
      [FetchDone (Resolved \<lparr>http_status = 200, json = JsonRejected\<rparr>), SendAnother] ?w1 = ?w2"
    by (simp add: step_def resume_ok ok_def test_draft_def initial_def)
  have 3: "run (Some test_endpoint) ?fill ?w2
      = ?w2\<lparr>form := test_draft\<lparr>lastSubmitTime := 5000\<rparr>\<rparr>"
    by (rule test_fill) (simp_all add: initial_def)
  have 4: "handleSubmit (Some test_endpoint) 5500 (test_draft\<lparr>lastSubmitTime := 5000\<rparr>)
      = (test_draft\<lparr>lastSubmitTime := 5000, touched := all_touched,
           errorMessage := JString (rate_limit_message 500), status := Error\<rparr>, [])"
    using handleSubmit_rate_limited [OF test_draft_valid, of 5500 5000 "Some test_endpoint"]
    by (simp add: RATE_LIMIT_COOLDOWN_MS_def)
  have 5: "rate_limit_message 500 = js ''Please wait 3 seconds before submitting again.''"
    by (simp add: rate_limit_message_def remainingSeconds_div RATE_LIMIT_COOLDOWN_MS_def
        toString_def js_def)
  have 6: "run (Some test_endpoint) [Submit 5500] (?w2\<lparr>form := test_draft\<lparr>lastSubmitTime := 5000\<rparr>\<rparr>)
      = \<lparr>form = test_draft\<lparr>touched := all_touched, lastSubmitTime := 5000,
              errorMessage := JString (js ''Please wait 3 seconds before submitting again.''),
              status := Error\<rparr>,
      pending = 0, requests = [post_request test_endpoint test_draft]\<rparr>"
    by (simp add: step_def 4 5 form_rendered_def disabled_def) (simp add: test_draft_def initial_def)
  show ?thesis
    by (simp only: run_append 1 2 3 6)
qed

end
